theory Spec2Isabelle
  imports Complex_Main "HOL-Library.Word" "HOL-Library.Sublist"
begin

section \<open>Values of the host language\<close>

text \<open>
  A JavaScript string is a sequence of 16-bit code units; \<open>str\<close> writes an ASCII
  literal. Equality (\<open>===\<close>) on strings is equality of the code-unit sequences.
\<close>

type_synonym jsstring = "16 word list"

definition str :: "string \<Rightarrow> jsstring" where
  "str s = map of_char s"

text \<open>
  A JavaScript number is a double: NaN, the two infinities, or a finite value. Only the
  order of finite values matters here, so a finite value is kept as the real it denotes.
\<close>

datatype number = NaN | NegInf | Fin real | PosInf

text \<open>The relational operator \<open>a > b\<close> on numbers: false as soon as one side is NaN.\<close>

fun num_gt :: "number \<Rightarrow> number \<Rightarrow> bool" where
  "num_gt NaN b = False"
| "num_gt a NaN = False"
| "num_gt NegInf b = False"
| "num_gt (Fin x) NegInf = True"
| "num_gt (Fin x) (Fin y) = (y < x)"
| "num_gt (Fin x) PosInf = False"
| "num_gt PosInf PosInf = False"
| "num_gt PosInf b = True"

text \<open>
  The built-ins of the runtime that the evaluator calls, where their result is not fixed
  by a few lines of arithmetic: the zone of the machine, the parsing of date strings
  other than a well-formed \<open>YYYY-MM-DD\<close>, case conversion beyond ASCII, and the
  conversions between strings and numbers. They are parameters of the model; a theorem
  with a free \<open>h\<close> holds on every host.
\<close>

record Host =
  localTZA :: "int \<Rightarrow> int"
  parseOther :: "jsstring \<Rightarrow> int option"
  lowerOther :: "jsstring \<Rightarrow> jsstring"
  stringToNumber :: "jsstring \<Rightarrow> number"
  numberToString :: "number \<Rightarrow> jsstring"

subsection \<open>String methods\<close>

fun startsWith :: "'a list \<Rightarrow> 'a list \<Rightarrow> bool" where
  "startsWith s [] = True"
| "startsWith [] (n # ns) = False"
| "startsWith (c # cs) (n # ns) = (c = n \<and> startsWith cs ns)"

text \<open>\<open>hay.includes(needle)\<close>: the needle occurs at some position of the haystack.\<close>

fun includes_str :: "'a list \<Rightarrow> 'a list \<Rightarrow> bool" where
  "includes_str [] needle = (needle = [])"
| "includes_str (c # cs) needle = (startsWith (c # cs) needle \<or> includes_str cs needle)"

definition asciiLower :: "16 word \<Rightarrow> 16 word" where
  "asciiLower c = (if 0x41 \<le> c \<and> c \<le> 0x5A then c + 0x20 else c)"

text \<open>
  \<open>s.toLowerCase()\<close>. On a string of ASCII code units it maps \<open>A-Z\<close> to \<open>a-z\<close> and
  keeps the rest; any other string is converted by the host's Unicode tables.
\<close>

definition toLowerCase :: "Host \<Rightarrow> jsstring \<Rightarrow> jsstring" where
  "toLowerCase h s = (if list_all (\<lambda>c. c < 0x80) s then map asciiLower s else lowerOther h s)"

subsection \<open>Conversions of a rule's value\<close>

text \<open>The field \<open>value: string | number\<close> of a rule.\<close>

datatype rvalue = VNum number | VStr jsstring

definition Number :: "Host \<Rightarrow> rvalue \<Rightarrow> number" where
  "Number h v = (case v of VNum n \<Rightarrow> n | VStr s \<Rightarrow> stringToNumber h s)"

definition String :: "Host \<Rightarrow> rvalue \<Rightarrow> jsstring" where
  "String h v = (case v of VStr s \<Rightarrow> s | VNum n \<Rightarrow> numberToString h n)"

subsection \<open>Dates\<close>

text \<open>
  \<open>new Date(s)\<close> on a string gives a time value in milliseconds since the epoch, or
  NaN (here \<open>None\<close>). A date-only string \<open>YYYY-MM-DD\<close> with a month in 1..12 and a day
  that the month has is read as midnight UTC of that day; every other string is left to
  the host.
\<close>

definition msPerDay :: int where
  "msPerDay = 86400000"

definition isDigit :: "16 word \<Rightarrow> bool" where
  "isDigit c = (0x30 \<le> c \<and> c \<le> 0x39)"

definition digitsVal :: "jsstring \<Rightarrow> int" where
  "digitsVal ds = foldl (\<lambda>acc c. 10 * acc + (uint c - 48)) 0 ds"

definition InLeapYear :: "int \<Rightarrow> bool" where
  "InLeapYear y = ((y mod 4 = 0 \<and> y mod 100 \<noteq> 0) \<or> y mod 400 = 0)"

definition DayFromYear :: "int \<Rightarrow> int" where
  "DayFromYear y =
     365 * (y - 1970) + (y - 1969) div 4 - (y - 1901) div 100 + (y - 1601) div 400"

definition DaysInMonth :: "int \<Rightarrow> int \<Rightarrow> int" where
  "DaysInMonth y m =
     (if m = 2 then (if InLeapYear y then 29 else 28)
      else if m = 4 \<or> m = 6 \<or> m = 9 \<or> m = 11 then 30 else 31)"

text \<open>The number of days of year \<open>y\<close> before its month \<open>m\<close> (1..12).\<close>

definition daysBeforeMonth :: "int \<Rightarrow> int \<Rightarrow> int" where
  "daysBeforeMonth y m = sum_list (map (DaysInMonth y) [1..m - 1])"

definition MakeDay :: "int \<Rightarrow> int \<Rightarrow> int \<Rightarrow> int" where
  "MakeDay y m d = DayFromYear y + daysBeforeMonth y m + d - 1"

definition parseIsoDate :: "jsstring \<Rightarrow> int option" where
  "parseIsoDate s =
     (if length s = 10 \<and> s ! 4 = 0x2D \<and> s ! 7 = 0x2D
         \<and> list_all isDigit (take 4 s)
         \<and> list_all isDigit (take 2 (drop 5 s))
         \<and> list_all isDigit (drop 8 s)
      then
        (let y = digitsVal (take 4 s);
             m = digitsVal (take 2 (drop 5 s));
             d = digitsVal (drop 8 s)
         in if 1 \<le> m \<and> m \<le> 12 \<and> 1 \<le> d \<and> d \<le> DaysInMonth y m
            then Some (MakeDay y m d * msPerDay) else None)
      else None)"

definition Date_parse :: "Host \<Rightarrow> jsstring \<Rightarrow> int option" where
  "Date_parse h s = (case parseIsoDate s of Some t \<Rightarrow> Some t | None \<Rightarrow> parseOther h s)"

text \<open>
  \<open>date.getDay()\<close> is the day of the week of the time value in the zone of the
  machine: \<open>WeekDay(LocalTime(t))\<close>, 0 for Sunday to 6 for Saturday.
\<close>

definition WeekDay :: "int \<Rightarrow> int" where
  "WeekDay t = (t div msPerDay + 4) mod 7"

definition getDay :: "Host \<Rightarrow> int \<Rightarrow> int" where
  "getDay h t = WeekDay (t + localTZA h t)"

section \<open>The data model (types.ts)\<close>

text \<open>
  The enum \<open>RuleType\<close>. At run time the field is a string, and a catalog read from
  storage or imported from a file can hold any: \<open>UNKNOWN_KIND\<close> stands for a value
  that is none of the four members.
\<close>

datatype RuleType = MAX_AMOUNT | FORBIDDEN_CATEGORY | WEEKEND_BAN | REQUIRED_FIELD | UNKNOWN_KIND

record AuditRule =
  rule_id :: jsstring
  rule_name :: jsstring
  rule_type :: RuleType
  rule_value :: rvalue
  enabled :: bool
  description :: jsstring
  receiptType :: "jsstring option"
  linkedRequestType :: "jsstring option"

record RequestType =
  rt_id :: jsstring
  rt_name :: jsstring
  linkedRuleIds :: "jsstring list option"

record ReceiptItem =
  item_description :: jsstring
  amount :: number

record ReceiptData =
  merchantName :: jsstring
  date :: jsstring
  totalAmount :: number
  currency :: jsstring
  category :: jsstring
  doc_type :: "jsstring option"
  items :: "ReceiptItem list"
  confidence :: number

record AuditResult =
  passed :: bool
  triggeredRules :: "jsstring list"
  score :: int

section \<open>The rule engine (evaluateRules)\<close>

text \<open>The table \<open>RULE_WEIGHTS\<close>; a key that it does not hold reads as undefined.\<close>

fun RULE_WEIGHTS :: "RuleType \<Rightarrow> int option" where
  "RULE_WEIGHTS FORBIDDEN_CATEGORY = Some 100"
| "RULE_WEIGHTS MAX_AMOUNT = Some 60"
| "RULE_WEIGHTS WEEKEND_BAN = Some 30"
| "RULE_WEIGHTS REQUIRED_FIELD = Some 20"
| "RULE_WEIGHTS UNKNOWN_KIND = None"

text \<open>
  \<open>RULE_WEIGHTS[rule.type] || 10\<close>: undefined and 0 are falsy. The loop reads the
  weight only after a violation, that is for one of the four kinds of the table.
\<close>

definition weight :: "RuleType \<Rightarrow> int" where
  "weight t = (case RULE_WEIGHTS t of None \<Rightarrow> 10 | Some w \<Rightarrow> if w = 0 then 10 else w)"

text \<open>Step 1 of the loop body: the rule is not activated by the request type.\<close>

definition notActivated :: "jsstring list option \<Rightarrow> AuditRule \<Rightarrow> bool" where
  "notActivated activeRuleIds rule =
     (case activeRuleIds of None \<Rightarrow> False | Some ids \<Rightarrow> rule_id rule \<notin> set ids)"

text \<open>
  Step 2: the rule names a receipt type other than \<open>'ALL'\<close> (an empty string is falsy)
  and the type of the document, \<open>data.type || ''\<close>, does not contain it.
\<close>

definition notApplicable :: "ReceiptData \<Rightarrow> AuditRule \<Rightarrow> bool" where
  "notApplicable data rule =
     (case receiptType rule of
        None \<Rightarrow> False
      | Some rt \<Rightarrow>
          rt \<noteq> [] \<and> rt \<noteq> str ''ALL'' \<and>
          (let currentType = (case doc_type data of None \<Rightarrow> [] | Some t \<Rightarrow> t)
           in \<not> includes_str currentType rt))"

text \<open>The \<open>switch\<close> on the kind of the rule: the value of \<open>violation\<close> after it.\<close>

definition violation :: "Host \<Rightarrow> ReceiptData \<Rightarrow> AuditRule \<Rightarrow> bool" where
  "violation h data rule =
     (case rule_type rule of
        MAX_AMOUNT \<Rightarrow> num_gt (totalAmount data) (Number h (rule_value rule))
      | FORBIDDEN_CATEGORY \<Rightarrow>
          category data \<noteq> [] \<and>
          includes_str (toLowerCase h (category data))
                   (toLowerCase h (String h (rule_value rule)))
      | WEEKEND_BAN \<Rightarrow>
          date data \<noteq> [] \<and>
          (case Date_parse h (date data) of
             None \<Rightarrow> False
           | Some t \<Rightarrow> (let day = getDay h t in day = 0 \<or> day = 6))
      | REQUIRED_FIELD \<Rightarrow>
          rule_value rule = VStr (str ''Merchant'') \<and>
          (merchantName data = [] \<or> merchantName data = str ''Unknown''
           \<or> merchantName data = [0x672A, 0x77E5])
      | UNKNOWN_KIND \<Rightarrow> False)"

text \<open>
  The \<open>for\<close> loop over the enabled rules, with its two mutable variables
  \<open>triggeredRules\<close> and \<open>totalRiskScore\<close> passed along; \<open>continue\<close> goes on with
  the rest of the list and the state unchanged.
\<close>

fun evalLoop ::
  "Host \<Rightarrow> ReceiptData \<Rightarrow> jsstring list option \<Rightarrow> AuditRule list \<Rightarrow>
   jsstring list \<times> int \<Rightarrow> jsstring list \<times> int" where
  "evalLoop h data activeRuleIds [] st = st"
| "evalLoop h data activeRuleIds (rule # rest) (triggered, totalRiskScore) =
     (if notActivated activeRuleIds rule then
        evalLoop h data activeRuleIds rest (triggered, totalRiskScore)
      else if notApplicable data rule then
        evalLoop h data activeRuleIds rest (triggered, totalRiskScore)
      else if violation h data rule then
        evalLoop h data activeRuleIds rest
          (triggered @ [rule_id rule], totalRiskScore + weight (rule_type rule))
      else
        evalLoop h data activeRuleIds rest (triggered, totalRiskScore))"

definition evaluateRules ::
  "Host \<Rightarrow> ReceiptData \<Rightarrow> AuditRule list \<Rightarrow> jsstring list option \<Rightarrow> AuditResult" where
  "evaluateRules h data rules activeRuleIds =
     (let activeRules = filter enabled rules;
          (triggered, totalRiskScore) = evalLoop h data activeRuleIds activeRules ([], 0);
          finalScore = min (max totalRiskScore 0) 100
      in \<lparr> passed = (length triggered = 0), triggeredRules = triggered, score = finalScore \<rparr>)"

section \<open>The evaluator with the exceptions of the runtime\<close>

text \<open>
  The source has no \<open>throw\<close>; what the runtime can raise in \<open>evaluateRules\<close> is a
  TypeError, when a method is called on a value that is undefined.
\<close>

datatype error = TypeError

fun andThen :: "error + 'a \<Rightarrow> ('a \<Rightarrow> error + 'b) \<Rightarrow> error + 'b" where
  "andThen (Inl e) f = Inl e"
| "andThen (Inr x) f = f x"

text \<open>\<open>v.m(...)\<close> for a value \<open>v\<close> that may be undefined.\<close>

definition invoke :: "'a option \<Rightarrow> ('a \<Rightarrow> 'b) \<Rightarrow> error + 'b" where
  "invoke v m = (case v of None \<Rightarrow> Inl TypeError | Some x \<Rightarrow> Inr (m x))"

text \<open>A string that may be undefined is truthy when it is defined and not empty.\<close>

definition truthy :: "jsstring option \<Rightarrow> bool" where
  "truthy v = (case v of None \<Rightarrow> False | Some s \<Rightarrow> s \<noteq> [])"

text \<open>
  A document as it can arrive at run time: each field that the evaluator reads has the
  value of its declared type or, when the payload lacks it, is undefined.
\<close>

record RawReceiptData =
  raw_merchantName :: "jsstring option"
  raw_date :: "jsstring option"
  raw_totalAmount :: "number option"
  raw_category :: "jsstring option"
  raw_type :: "jsstring option"

text \<open>A document of the type \<open>ReceiptData\<close>: only \<open>type\<close> may be undefined.\<close>

definition toRaw :: "ReceiptData \<Rightarrow> RawReceiptData" where
  "toRaw data =
     \<lparr> raw_merchantName = Some (merchantName data), raw_date = Some (date data),
       raw_totalAmount = Some (totalAmount data), raw_category = Some (category data),
       raw_type = doc_type data \<rparr>"

text \<open>\<open>activeRuleIds && !activeRuleIds.includes(rule.id)\<close>; an array is truthy.\<close>

definition notActivated_exn :: "jsstring list option \<Rightarrow> AuditRule \<Rightarrow> error + bool" where
  "notActivated_exn activeRuleIds rule =
     (if activeRuleIds \<noteq> None then
        andThen (invoke activeRuleIds (\<lambda>ids. rule_id rule \<in> set ids)) (\<lambda>found. Inr (\<not> found))
      else Inr False)"

text \<open>
  \<open>rule.receiptType && rule.receiptType !== 'ALL'\<close>, then
  \<open>!currentType.includes(rule.receiptType)\<close> with \<open>currentType = data.type || ''\<close>.
  The argument of \<open>includes\<close> is converted to a string, undefined to \<open>'undefined'\<close>.
\<close>

definition notApplicable_exn :: "RawReceiptData \<Rightarrow> AuditRule \<Rightarrow> error + bool" where
  "notApplicable_exn data rule =
     (if truthy (receiptType rule) \<and> receiptType rule \<noteq> Some (str ''ALL'') then
        (let currentType = (if truthy (raw_type data) then raw_type data else Some []);
             searchString = (case receiptType rule of None \<Rightarrow> str ''undefined'' | Some rt \<Rightarrow> rt)
         in andThen (invoke currentType (\<lambda>s. includes_str s searchString))
              (\<lambda>found. Inr (\<not> found)))
      else Inr False)"

text \<open>\<open>new Date(v)\<close>: an undefined argument gives an invalid date.\<close>

definition new_Date :: "Host \<Rightarrow> jsstring option \<Rightarrow> int option" where
  "new_Date h v = (case v of None \<Rightarrow> None | Some s \<Rightarrow> Date_parse h s)"

text \<open>
  The \<open>switch\<close>. In \<open>data.totalAmount > Number(rule.value)\<close> an undefined amount is
  converted to NaN; \<open>!data.merchantName\<close> holds for an undefined or empty name.
\<close>

definition violation_exn :: "Host \<Rightarrow> RawReceiptData \<Rightarrow> AuditRule \<Rightarrow> error + bool" where
  "violation_exn h data rule =
     (case rule_type rule of
        MAX_AMOUNT \<Rightarrow>
          Inr (num_gt (case raw_totalAmount data of None \<Rightarrow> NaN | Some a \<Rightarrow> a)
                 (Number h (rule_value rule)))
      | FORBIDDEN_CATEGORY \<Rightarrow>
          if truthy (raw_category data) then
            andThen (invoke (raw_category data) (toLowerCase h))
              (\<lambda>lower. Inr (includes_str lower (toLowerCase h (String h (rule_value rule)))))
          else Inr False
      | WEEKEND_BAN \<Rightarrow>
          if truthy (raw_date data) then
            (case new_Date h (raw_date data) of
               None \<Rightarrow> Inr False
             | Some t \<Rightarrow> Inr (let day = getDay h t in day = 0 \<or> day = 6))
          else Inr False
      | REQUIRED_FIELD \<Rightarrow>
          Inr (rule_value rule = VStr (str ''Merchant'') \<and>
               (\<not> truthy (raw_merchantName data)
                \<or> raw_merchantName data = Some (str ''Unknown'')
                \<or> raw_merchantName data = Some [0x672A, 0x77E5]))
      | UNKNOWN_KIND \<Rightarrow> Inr False)"

text \<open>The loop; an exception in the body ends it.\<close>

fun evalLoop_exn ::
  "Host \<Rightarrow> RawReceiptData \<Rightarrow> jsstring list option \<Rightarrow> AuditRule list \<Rightarrow>
   jsstring list \<times> int \<Rightarrow> error + jsstring list \<times> int" where
  "evalLoop_exn h data activeRuleIds [] st = Inr st"
| "evalLoop_exn h data activeRuleIds (rule # rest) (triggered, totalRiskScore) =
     andThen (notActivated_exn activeRuleIds rule) (\<lambda>inactive.
       if inactive then evalLoop_exn h data activeRuleIds rest (triggered, totalRiskScore)
       else andThen (notApplicable_exn data rule) (\<lambda>otherType.
         if otherType then evalLoop_exn h data activeRuleIds rest (triggered, totalRiskScore)
         else andThen (violation_exn h data rule) (\<lambda>violated.
           if violated then
             evalLoop_exn h data activeRuleIds rest
               (triggered @ [rule_id rule], totalRiskScore + weight (rule_type rule))
           else evalLoop_exn h data activeRuleIds rest (triggered, totalRiskScore))))"

definition evaluateRules_exn ::
  "Host \<Rightarrow> RawReceiptData \<Rightarrow> AuditRule list \<Rightarrow> jsstring list option \<Rightarrow> error + AuditResult" where
  "evaluateRules_exn h data rules activeRuleIds =
     (let activeRules = filter enabled rules in
      andThen (evalLoop_exn h data activeRuleIds activeRules ([], 0))
        (\<lambda>(triggered, totalRiskScore).
           Inr \<lparr> passed = (length triggered = 0), triggeredRules = triggered,
                 score = min (max totalRiskScore 0) 100 \<rparr>))"

section \<open>The linkage of rules to request types\<close>

subsection \<open>The migration of db.init\<close>

text \<open>
  What the migration block of \<open>db.init\<close> reads and writes. \<open>rules_table\<close> is
  the list of rows that \<open>SELECT * FROM rules\<close> returns. The table
  \<open>request_types\<close> is kept with its stored rows and with the fact whether it has the
  column \<open>linkedRuleIds\<close>: \<open>CREATE TABLE IF NOT EXISTS\<close> leaves a table that
  exists as it was created, so a table of the earlier schema (\<open>id\<close>, \<open>name\<close>)
  does not get the column.
\<close>

record Database =
  rules_table :: "AuditRule list"
  request_types_has_linkedRuleIds :: bool
  request_types_table :: "RequestType list"

text \<open>
  \<open>SELECT * FROM request_types\<close>: the storage engine returns of each row the columns
  that the table declares, so without the column every row reads with
  \<open>linkedRuleIds\<close> undefined, whatever was written.
\<close>

definition select_request_types :: "Database \<Rightarrow> RequestType list" where
  "select_request_types db =
     (if request_types_has_linkedRuleIds db then request_types_table db
      else map (\<lambda>row. row\<lparr> linkedRuleIds := None \<rparr>) (request_types_table db))"

text \<open>
  The predicate of the \<open>filter\<close> over the rules: the legacy tag is falsy (absent
  or the empty string), or \<open>'ALL'\<close>, or the id of the request type.
\<close>

definition matchingRule :: "RequestType \<Rightarrow> AuditRule \<Rightarrow> bool" where
  "matchingRule rt r =
     (case linkedRequestType r of
        None \<Rightarrow> True
      | Some tag \<Rightarrow> tag = [] \<or> tag = str ''ALL'' \<or> tag = rt_id rt)"

text \<open>
  The block runs when the query returns a row and its first row has no
  \<open>linkedRuleIds\<close>. It then deletes the rows of the table and inserts
  \<open>updatedTypes\<close>; the schema of the table stays, and the rules table is only read.
\<close>

definition migrateRequestTypes :: "Database \<Rightarrow> Database" where
  "migrateRequestTypes db =
     (let requestTypes = select_request_types db in
      if length requestTypes > 0 \<and> linkedRuleIds (requestTypes ! 0) = None then
        (let rules = rules_table db;
             updatedTypes =
               map (\<lambda>rt. rt\<lparr> linkedRuleIds :=
                      Some (map rule_id (filter (matchingRule rt) rules)) \<rparr>) requestTypes
         in db\<lparr> request_types_table := updatedTypes \<rparr>)
      else db)"

subsection \<open>Deleting a rule (handleDeleteRule)\<close>

text \<open>
  The state of the configuration component that the handler touches. The flag
  \<open>readOnly\<close> is a property of the component and \<open>confirmed\<close> is the answer of
  the user to the confirmation dialog.
\<close>

record ConfigState =
  st_rules :: "AuditRule list"
  st_requestTypes :: "RequestType list"
  st_editingRuleId :: "jsstring option"
  st_isAddingRule :: bool

text \<open>\<open>rt.linkedRuleIds?.filter(rid => rid !== id) || []\<close>\<close>

definition pruneLinks :: "jsstring \<Rightarrow> jsstring list option \<Rightarrow> jsstring list" where
  "pruneLinks ident links =
     (case links of None \<Rightarrow> [] | Some ids \<Rightarrow> filter (\<lambda>rid. rid \<noteq> ident) ids)"

definition handleDeleteRule :: "bool \<Rightarrow> bool \<Rightarrow> jsstring \<Rightarrow> ConfigState \<Rightarrow> ConfigState" where
  "handleDeleteRule readOnly confirmed ident st =
     (if readOnly then st
      else if confirmed then
        st\<lparr> st_rules := filter (\<lambda>r. rule_id r \<noteq> ident) (st_rules st),
            st_isAddingRule :=
              (if st_editingRuleId st = Some ident then False else st_isAddingRule st),
            st_editingRuleId :=
              (if st_editingRuleId st = Some ident then None else st_editingRuleId st),
            st_requestTypes :=
              map (\<lambda>rt. rt\<lparr> linkedRuleIds := Some (pruneLinks ident (linkedRuleIds rt)) \<rparr>)
                (st_requestTypes st) \<rparr>
      else st)"

section \<open>The words of the specification\<close>

text \<open>
  The weight table as the specification gives it: 100, 60, 30 and 20 for the four kinds,
  10 for any other kind.
\<close>

fun spec_weight :: "RuleType \<Rightarrow> int" where
  "spec_weight FORBIDDEN_CATEGORY = 100"
| "spec_weight MAX_AMOUNT = 60"
| "spec_weight WEEKEND_BAN = 30"
| "spec_weight REQUIRED_FIELD = 20"
| "spec_weight UNKNOWN_KIND = 10"

section \<open>The rules that the loop counts\<close>

text \<open>
  A rule of the catalog is counted when it passes the filter on \<open>enabled\<close>, is
  skipped by neither of the two steps of the loop body, and is violated.
\<close>

definition counted :: "Host \<Rightarrow> ReceiptData \<Rightarrow> jsstring list option \<Rightarrow> AuditRule \<Rightarrow> bool" where
  "counted h data activeRuleIds rule =
     (enabled rule \<and> \<not> notActivated activeRuleIds rule \<and> \<not> notApplicable data rule
      \<and> violation h data rule)"

section \<open>Example inputs\<close>

text \<open>
  Two hosts: one whose zone is UTC, one five hours west of it (UTC-05:00). Both reject
  every date string that is not a well-formed \<open>YYYY-MM-DD\<close>; the other conversions are
  not reached by the examples.
\<close>

definition hostUTC :: Host where
  "hostUTC = \<lparr> localTZA = (\<lambda>t. 0), parseOther = (\<lambda>s. None), lowerOther = (\<lambda>s. s),
               stringToNumber = (\<lambda>s. NaN), numberToString = (\<lambda>n. []) \<rparr>"

definition hostWest :: Host where
  "hostWest = hostUTC\<lparr> localTZA := (\<lambda>t. - 18000000) \<rparr>"

definition mkRule :: "string \<Rightarrow> RuleType \<Rightarrow> rvalue \<Rightarrow> bool \<Rightarrow> AuditRule" where
  "mkRule i k v e =
     \<lparr> rule_id = str i, rule_name = str ''rule'', rule_type = k, rule_value = v, enabled = e,
       description = [], receiptType = Some (str ''ALL''), linkedRequestType = None \<rparr>"

definition mkDoc :: "number \<Rightarrow> string \<Rightarrow> string \<Rightarrow> ReceiptData" where
  "mkDoc a c d =
     \<lparr> merchantName = str ''Shop'', date = str d, totalAmount = a, currency = str ''CNY'',
       category = str c, doc_type = Some (str ''Invoice''), items = [], confidence = Fin 1 \<rparr>"

definition ruleMax :: AuditRule where
  "ruleMax = mkRule ''r1'' MAX_AMOUNT (VNum (Fin 2000)) True"

definition ruleForbidden :: AuditRule where
  "ruleForbidden = mkRule ''r2'' FORBIDDEN_CATEGORY (VStr (str ''entertainment'')) True"

definition ruleWeekend :: AuditRule where
  "ruleWeekend = mkRule ''r3'' WEEKEND_BAN (VStr (str ''All'')) True"

definition docDining :: ReceiptData where
  "docDining = mkDoc (Fin 2500) ''Entertainment & Dining'' ''2024-01-08''"

definition docSaturday :: ReceiptData where
  "docSaturday = mkDoc (Fin 10) ''Food'' ''2024-01-06''"

definition docMonday :: ReceiptData where
  "docMonday = mkDoc (Fin 10) ''Food'' ''2024-01-08''"

definition ruleOff :: AuditRule where
  "ruleOff = mkRule ''r4'' MAX_AMOUNT (VNum (Fin 1)) False"

definition exCatalog :: "AuditRule list" where
  "exCatalog = [ruleMax, ruleForbidden, ruleOff]"

definition ruleZero :: AuditRule where
  "ruleZero = mkRule ''r0'' MAX_AMOUNT (VNum (Fin 0)) True"

definition ruleEmptyToken :: AuditRule where
  "ruleEmptyToken = mkRule ''r5'' FORBIDDEN_CATEGORY (VStr []) True"

definition ruleUnknown :: AuditRule where
  "ruleUnknown = mkRule ''r6'' UNKNOWN_KIND (VNum (Fin 1)) True"

definition ruleOtherField :: AuditRule where
  "ruleOtherField = mkRule ''r7'' REQUIRED_FIELD (VStr (str ''Date'')) True"

definition docZero :: ReceiptData where
  "docZero = mkDoc (Fin 0) ''Food'' ''2024-01-08''"

definition docNoCategory :: ReceiptData where
  "docNoCategory = mkDoc (Fin 10) [] ''2024-01-08''"

text \<open>
  Request types, rules with a legacy tag, three states of the tables and a state of the
  configuration component.
\<close>

definition rtTravel :: RequestType where
  "rtTravel = \<lparr> rt_id = str ''rt1'', rt_name = str ''Travel'', linkedRuleIds = Some [str ''r1'', str ''r2''] \<rparr>"

definition rtLegacy :: RequestType where
  "rtLegacy = \<lparr> rt_id = str ''rt2'', rt_name = str ''Meals'', linkedRuleIds = None \<rparr>"






definition stLinked :: ConfigState where
  "stLinked = \<lparr> st_rules = exCatalog, st_requestTypes = [rtTravel, rtLegacy],
               st_editingRuleId = None, st_isAddingRule = False \<rparr>"

text \<open>
  A document at the limit of \<open>ruleMax\<close>, a rule whose threshold is a string, a host
  that reads strings of decimal digits as numbers, a document without any field, and
  rules for the merchant name and for one receipt type.
\<close>

definition docAtLimit :: ReceiptData where
  "docAtLimit = mkDoc (Fin 2000) ''Food'' ''2024-01-08''"

definition ruleTextLimit :: AuditRule where
  "ruleTextLimit = mkRule ''r8'' MAX_AMOUNT (VStr (str ''2000'')) True"

definition hostDecimal :: Host where
  "hostDecimal = hostUTC\<lparr> stringToNumber := (\<lambda>s. if list_all isDigit s \<and> s \<noteq> []
                                                then Fin (real_of_int (digitsVal s)) else NaN) \<rparr>"

definition rawEmpty :: RawReceiptData where
  "rawEmpty = \<lparr> raw_merchantName = None, raw_date = None, raw_totalAmount = None,
                raw_category = None, raw_type = None \<rparr>"

definition ruleMerchant :: AuditRule where
  "ruleMerchant = mkRule ''r9'' REQUIRED_FIELD (VStr (str ''Merchant'')) True"

definition ruleTaxi :: AuditRule where
  "ruleTaxi = (mkRule ''r10'' MAX_AMOUNT (VNum (Fin 200)) True)\<lparr> receiptType := Some (str ''Taxi'') \<rparr>"

section \<open>The result of the loop\<close>

lemma evalLoop_filter:
  "evalLoop h data act rs (tr, tot) =
     (tr @ map rule_id (filter (\<lambda>r. \<not> notActivated act r \<and> \<not> notApplicable data r \<and> violation h data r) rs),
      tot + sum_list (map (weight \<circ> rule_type)
              (filter (\<lambda>r. \<not> notActivated act r \<and> \<not> notApplicable data r \<and> violation h data r) rs)))"
  by (induction rs arbitrary: tr tot) simp_all

lemma counted_fun:
  "counted h data act =
     (\<lambda>r. enabled r \<and> \<not> notActivated act r \<and> \<not> notApplicable data r \<and> violation h data r)"
  by (rule ext) (simp add: counted_def)

lemma triggeredRules_eq:
  "triggeredRules (evaluateRules h data rules act) = map rule_id (filter (counted h data act) rules)"
  by (simp add: evaluateRules_def evalLoop_filter counted_fun)

lemma score_eq:
  "score (evaluateRules h data rules act) =
     min (max (sum_list (map (weight \<circ> rule_type) (filter (counted h data act) rules))) 0) 100"
  by (simp add: evaluateRules_def evalLoop_filter counted_fun)

lemma passed_eq:
  "passed (evaluateRules h data rules act) = (filter (counted h data act) rules = [])"
  by (simp add: evaluateRules_def evalLoop_filter counted_fun)

lemma evaluateRules_counted:
  "evaluateRules h data rules act =
     \<lparr> passed = (filter (counted h data act) rules = []),
       triggeredRules = map rule_id (filter (counted h data act) rules),
       score = min (max (sum_list (map (weight \<circ> rule_type)
                 (filter (counted h data act) rules))) 0) 100 \<rparr>"
  by (simp add: evaluateRules_def evalLoop_filter counted_fun)

lemma weight_spec: "weight k = spec_weight k"
  by (cases k) (simp_all add: weight_def)

lemma evalLoop_active_cong:
  "\<forall>r \<in> set rs. rule_id r \<in> set ids \<Longrightarrow>
   evalLoop h data (Some ids) rs st = evalLoop h data None rs st"
  by (induction rs arbitrary: st) (auto simp: notActivated_def)

section \<open>Which rules are triggered\<close>

lemma triggered_iff_counted:
  assumes "distinct (map rule_id rules)" and "r \<in> set rules"
  shows "rule_id r \<in> set (triggeredRules (evaluateRules h data rules act))
           \<longleftrightarrow> counted h data act r"
proof -
  have inj: "inj_on rule_id (set rules)"
    using assms(1) by (simp add: distinct_map)
  have "rule_id r \<in> rule_id ` {x \<in> set rules. counted h data act x} \<longleftrightarrow> counted h data act r"
    using inj assms(2) by (auto dest: inj_onD)
  then show ?thesis
    by (simp add: triggeredRules_eq)
qed

lemma triggered_at_position:
  "triggeredRules (evaluateRules h data (xs @ r # ys) act)
     = triggeredRules (evaluateRules h data xs act)
       @ (if counted h data act r then [rule_id r] else [])
       @ triggeredRules (evaluateRules h data ys act)"
  by (simp add: triggeredRules_eq)

lemma triggered_subseq:
  "subseq (triggeredRules (evaluateRules h data rules act)) (map rule_id rules)"
  by (simp add: triggeredRules_eq subseq_map)

lemma triggered_distinct:
  "distinct (map rule_id rules) \<Longrightarrow> distinct (triggeredRules (evaluateRules h data rules act))"
  by (simp add: triggeredRules_eq distinct_map_filter)

lemma triggered_none_active:
  "triggeredRules (evaluateRules h data rules (Some [])) = []"
  by (simp add: triggeredRules_eq counted_def notActivated_def)

section \<open>String containment\<close>

lemma startsWith_prefix: "startsWith s n \<longleftrightarrow> prefix n s"
  by (induction s n rule: startsWith.induct) auto

lemma includes_str_sublist: "includes_str s n \<longleftrightarrow> sublist n s"
  by (induction s) (simp_all add: startsWith_prefix sublist_Cons_right)

section \<open>Evaluation of the examples\<close>

lemmas engine_defs =
  evaluateRules_def notActivated_def notApplicable_def violation_def Number_def String_def
  toLowerCase_def asciiLower_def weight_def str_def

lemmas date_defs =
  Date_parse_def parseIsoDate_def isDigit_def digitsVal_def MakeDay_def DayFromYear_def
  daysBeforeMonth_def DaysInMonth_def InLeapYear_def msPerDay_def getDay_def WeekDay_def

lemma two_rules_clamped:
  "evaluateRules h docDining [ruleMax, ruleForbidden] None
     = \<lparr> passed = False, triggeredRules = [str ''r1'', str ''r2''], score = 100 \<rparr>"
  by (simp add: docDining_def ruleMax_def ruleForbidden_def mkRule_def mkDoc_def engine_defs)

lemma parse_saturday: "parseIsoDate (str ''2024-01-06'') = Some (19728 * 86400000)"
  by (simp add: date_defs str_def)

lemma weekday_epoch: "WeekDay 0 = 4" and weekday_saturday: "WeekDay (19728 * 86400000) = 6"
  by (simp_all add: WeekDay_def msPerDay_def)

section \<open>The maximal amount\<close>

lemma counted_max_amount:
  assumes "rule_type r = MAX_AMOUNT" and "enabled r"
    and "\<not> notActivated act r" and "\<not> notApplicable data r"
  shows "counted h data act r \<longleftrightarrow> num_gt (totalAmount data) (Number h (rule_value r))"
  using assms by (simp add: counted_def violation_def)

section \<open>The migration inside and outside its guard\<close>

lemma migration_skipped:
  "select_request_types db = [] \<or> linkedRuleIds (hd (select_request_types db)) \<noteq> None
   \<Longrightarrow> migrateRequestTypes db = db"
  by (cases "select_request_types db") (auto simp: migrateRequestTypes_def)



section \<open>No step of the evaluator raises\<close>

lemma invoke_undefined: "invoke None m = Inl TypeError"
  by (simp add: invoke_def)

lemma notActivated_exn_eq: "notActivated_exn act r = Inr (notActivated act r)"
  by (cases act) (simp_all add: notActivated_exn_def notActivated_def invoke_def)

lemma notApplicable_exn_total: "\<exists>b. notApplicable_exn raw r = Inr b"
  by (cases "raw_type raw") (auto simp: notApplicable_exn_def invoke_def truthy_def Let_def)

lemma notApplicable_exn_toRaw: "notApplicable_exn (toRaw data) r = Inr (notApplicable data r)"
  by (cases "receiptType r"; cases "doc_type data")
     (auto simp: notApplicable_exn_def notApplicable_def invoke_def truthy_def toRaw_def Let_def)

lemma violation_exn_total: "\<exists>b. violation_exn h raw r = Inr b"
  by (cases "rule_type r"; cases "raw_category raw"; cases "new_Date h (raw_date raw)")
     (auto simp: violation_exn_def invoke_def truthy_def)

lemma violation_exn_toRaw: "violation_exn h (toRaw data) r = Inr (violation h data r)"
  by (cases "rule_type r"; cases "Date_parse h (date data)")
     (auto simp: violation_exn_def violation_def invoke_def truthy_def toRaw_def new_Date_def)

lemma evalLoop_exn_total: "\<exists>st'. evalLoop_exn h raw act rs st = Inr st'"
proof (induction rs arbitrary: st)
  case Nil
  show ?case by simp
next
  case (Cons r rs)
  obtain tr tot where st: "st = (tr, tot)" by (cases st)
  obtain b where b: "notApplicable_exn raw r = Inr b"
    using notApplicable_exn_total by blast
  obtain c where c: "violation_exn h raw r = Inr c"
    using violation_exn_total by blast
  show ?case
    using Cons.IH by (simp add: st notActivated_exn_eq b c)
qed

lemma evalLoop_exn_toRaw:
  "evalLoop_exn h (toRaw data) act rs st = Inr (evalLoop h data act rs st)"
proof (induction rs arbitrary: st)
  case Nil
  show ?case by simp
next
  case (Cons r rs)
  obtain tr tot where st: "st = (tr, tot)" by (cases st)
  show ?case
    using Cons.IH
    by (simp add: st notActivated_exn_eq notApplicable_exn_toRaw violation_exn_toRaw)
qed

lemma evaluateRules_exn_total: "\<exists>res. evaluateRules_exn h raw rules act = Inr res"
proof -
  obtain st' where "evalLoop_exn h raw act (filter enabled rules) ([], 0) = Inr st'"
    using evalLoop_exn_total by blast
  then show ?thesis
    by (cases st') (simp add: evaluateRules_exn_def)
qed

lemma evaluateRules_exn_toRaw:
  "evaluateRules_exn h (toRaw data) rules act = Inr (evaluateRules h data rules act)"
  by (simp add: evaluateRules_exn_def evaluateRules_def evalLoop_exn_toRaw split: prod.split)

lemma inert_no_violation:
  assumes "rule_type r = UNKNOWN_KIND
           \<or> (rule_type r = REQUIRED_FIELD \<and> rule_value r \<noteq> VStr (str ''Merchant''))"
  shows "violation_exn h raw r = Inr False" and "\<not> violation h data r"
  using assms by (auto simp: violation_exn_def violation_def)

lemma evalLoop_exn_skip:
  assumes "violation_exn h raw r = Inr False"
  shows "evalLoop_exn h raw act (as @ r # bs) st = evalLoop_exn h raw act (as @ bs) st"
proof (induction as arbitrary: st)
  case Nil
  obtain tr tot where st: "st = (tr, tot)" by (cases st)
  obtain b where b: "notApplicable_exn raw r = Inr b"
    using notApplicable_exn_total by blast
  show ?case
    by (simp add: st notActivated_exn_eq b assms)
next
  case (Cons a as)
  obtain tr tot where st: "st = (tr, tot)" by (cases st)
  obtain b where b: "notApplicable_exn raw a = Inr b"
    using notApplicable_exn_total by blast
  obtain c where c: "violation_exn h raw a = Inr c"
    using violation_exn_total by blast
  show ?case
    using Cons.IH by (simp add: st notActivated_exn_eq b c)
qed

lemma evaluateRules_exn_skip:
  assumes "violation_exn h raw r = Inr False"
  shows "evaluateRules_exn h raw (xs @ r # ys) act = evaluateRules_exn h raw (xs @ ys) act"
  using evalLoop_exn_skip [OF assms, of act "filter enabled xs" "filter enabled ys" "([], 0)"]
  by (simp add: evaluateRules_exn_def)

section \<open>Claims\<close>

text \<open>
  C1. For every document, rule catalog and optional list of active rule ids, the result
  of \<open>evaluateRules\<close> has \<open>passed\<close> true exactly when its list of triggered rule ids
  is empty.
\<close>

theorem C1_passed_iff_none_triggered:
  "passed (evaluateRules h data rules activeRuleIds)
     = (length (triggeredRules (evaluateRules h data rules activeRuleIds)) = 0)"
  by (simp add: evaluateRules_def split: prod.split)

text \<open>
  C2. The score is the sum of the weights of the triggered rules (100 for a forbidden
  category, 60 for a maximal amount, 30 for a weekend ban, 20 for a required field, 10
  for any other kind), clamped to the interval from 0 to 100; the triggered rules are the
  counted rules of the catalog, in its order. A rule of weight 60 and one of weight 100
  triggered together give \<open>min 160 100 = 100\<close>.
\<close>

theorem C2_score_clamped_weight_sum:
  "score (evaluateRules h data rules act)
     = min (max (sum_list (map (spec_weight \<circ> rule_type)
                   (filter (counted h data act) rules))) 0) 100
   \<and> triggeredRules (evaluateRules h data rules act)
       = map rule_id (filter (counted h data act) rules)
   \<and> evaluateRules h docDining [ruleMax, ruleForbidden] None
       = \<lparr> passed = False, triggeredRules = [str ''r1'', str ''r2''], score = 100 \<rparr>"
proof -
  have w: "weight = spec_weight"
    by (rule ext) (rule weight_spec)
  show ?thesis
    using score_eq [of h data rules act] triggeredRules_eq [of h data rules act]
      two_rules_clamped [of h]
    by (simp add: w)
qed

text \<open>
  C3. Calling \<open>evaluateRules\<close> without the list of active rule ids gives the same
  result as calling it with a list that holds exactly the ids of the enabled rules of
  the catalog.
\<close>

theorem C3_omitted_equals_all_enabled:
  assumes "set ids = set (map rule_id (filter enabled rules))"
  shows "evaluateRules h data rules (Some ids) = evaluateRules h data rules None"
proof -
  have "\<forall>r \<in> set (filter enabled rules). rule_id r \<in> set ids"
    using assms by auto
  then have "evalLoop h data (Some ids) (filter enabled rules) ([], 0)
           = evalLoop h data None (filter enabled rules) ([], 0)"
    by (rule evalLoop_active_cong)
  then show ?thesis
    by (simp add: evaluateRules_def)
qed

theorem C3_omitted_equals_all_enabled_witness:
  "set [str ''r2'', str ''r1''] = set (map rule_id (filter enabled exCatalog))
   \<and> evaluateRules hostUTC docDining exCatalog (Some [str ''r2'', str ''r1''])
       = evaluateRules hostUTC docDining exCatalog None
   \<and> triggeredRules (evaluateRules hostUTC docDining exCatalog None) = [str ''r1'', str ''r2'']"
proof -
  have ids: "set [str ''r2'', str ''r1''] = set (map rule_id (filter enabled exCatalog))"
    by (auto simp: exCatalog_def ruleMax_def ruleForbidden_def ruleOff_def mkRule_def)
  have "triggeredRules (evaluateRules hostUTC docDining exCatalog None) = [str ''r1'', str ''r2'']"
    by (simp add: exCatalog_def ruleMax_def ruleForbidden_def ruleOff_def docDining_def
        mkRule_def mkDoc_def engine_defs)
  with ids C3_omitted_equals_all_enabled [OF ids, of hostUTC docDining] show ?thesis
    by simp
qed

text \<open>
  C4. In a catalog with distinct rule ids, a rule whose id is in the triggered list is
  enabled and, when a list of active rule ids is given (even the empty one), has its id
  in that list. The triggered list is a subsequence of the ids of the catalog, in its
  order, and has no duplicates; with the empty list of active ids it is empty.
\<close>

theorem C4_triggered_enabled_active_ordered:
  assumes "distinct (map rule_id rules)"
  shows "(\<forall>r \<in> set rules.
            rule_id r \<in> set (triggeredRules (evaluateRules h data rules act)) \<longrightarrow>
            enabled r \<and> (\<forall>ids. act = Some ids \<longrightarrow> rule_id r \<in> set ids))
       \<and> subseq (triggeredRules (evaluateRules h data rules act)) (map rule_id rules)
       \<and> distinct (triggeredRules (evaluateRules h data rules act))
       \<and> triggeredRules (evaluateRules h data rules (Some [])) = []"
proof -
  have "enabled r \<and> (\<forall>ids. act = Some ids \<longrightarrow> rule_id r \<in> set ids)"
    if "r \<in> set rules" and "rule_id r \<in> set (triggeredRules (evaluateRules h data rules act))" for r
  proof -
    have "counted h data act r"
      using triggered_iff_counted [OF assms that(1)] that(2) by simp
    then show ?thesis
      by (auto simp: counted_def notActivated_def)
  qed
  then show ?thesis
    using triggered_subseq [of h data rules act] triggered_distinct [OF assms, of h data act]
      triggered_none_active [of h data rules]
    by blast
qed

theorem C4_triggered_enabled_active_ordered_witness:
  "distinct (map rule_id exCatalog)
   \<and> triggeredRules (evaluateRules hostUTC docDining exCatalog (Some [str ''r4'', str ''r2''])) = [str ''r2'']
   \<and> enabled ruleForbidden \<and> \<not> enabled ruleOff
   \<and> subseq (triggeredRules (evaluateRules hostUTC docDining exCatalog (Some [str ''r4'', str ''r2''])))
        (map rule_id exCatalog)
   \<and> distinct (triggeredRules (evaluateRules hostUTC docDining exCatalog (Some [str ''r4'', str ''r2''])))
   \<and> triggeredRules (evaluateRules hostUTC docDining exCatalog (Some [])) = []"
proof -
  have d: "distinct (map rule_id exCatalog)"
    by (simp add: exCatalog_def ruleMax_def ruleForbidden_def ruleOff_def mkRule_def str_def)
  have t: "triggeredRules (evaluateRules hostUTC docDining exCatalog (Some [str ''r4'', str ''r2''])) = [str ''r2'']"
    by (simp add: exCatalog_def ruleMax_def ruleForbidden_def ruleOff_def docDining_def
        mkRule_def mkDoc_def engine_defs)
  have e: "enabled ruleForbidden \<and> \<not> enabled ruleOff"
    by (simp add: ruleForbidden_def ruleOff_def mkRule_def)
  from C4_triggered_enabled_active_ordered [OF d, of hostUTC docDining "Some [str ''r4'', str ''r2'']"]
  show ?thesis using d t e by blast
qed

text \<open>
  C5. The weekend ban is decided by the day of the week in the zone of the machine, not
  in a fixed zone: the date \<open>2024-01-06\<close>, a Saturday, is read as midnight UTC, which
  on a host five hours west of UTC is Friday evening, so the rule is not triggered there;
  the Monday \<open>2024-01-08\<close> is Sunday evening there and triggers it. On a host in UTC
  the Saturday triggers the rule.
\<close>

theorem C5_weekend_read_in_host_zone:
  "evaluateRules hostWest docSaturday [ruleWeekend] None
     = \<lparr> passed = True, triggeredRules = [], score = 0 \<rparr>
   \<and> evaluateRules hostWest docMonday [ruleWeekend] None
     = \<lparr> passed = False, triggeredRules = [str ''r3''], score = 30 \<rparr>
   \<and> evaluateRules hostUTC docSaturday [ruleWeekend] None
     = \<lparr> passed = False, triggeredRules = [str ''r3''], score = 30 \<rparr>"
  by (simp add: docSaturday_def docMonday_def ruleWeekend_def mkRule_def mkDoc_def
      hostUTC_def hostWest_def engine_defs date_defs)

text \<open>
  C6, as stated, fails for an empty category label: the empty token is a substring of
  the empty label, but the guard \<open>data.category &&\<close> keeps the rule from being
  triggered.
\<close>

theorem C6_forbidden_category_empty_counterexample:
  "rule_type ruleEmptyToken = FORBIDDEN_CATEGORY \<and> enabled ruleEmptyToken
   \<and> \<not> notActivated None ruleEmptyToken \<and> \<not> notApplicable docNoCategory ruleEmptyToken
   \<and> sublist (toLowerCase hostUTC (String hostUTC (rule_value ruleEmptyToken)))
        (toLowerCase hostUTC (category docNoCategory))
   \<and> includes_str (toLowerCase hostUTC (category docNoCategory))
        (toLowerCase hostUTC (String hostUTC (rule_value ruleEmptyToken)))
   \<and> evaluateRules hostUTC docNoCategory [ruleEmptyToken] None
        = \<lparr> passed = True, triggeredRules = [], score = 0 \<rparr>"
  by (simp add: ruleEmptyToken_def docNoCategory_def mkRule_def mkDoc_def engine_defs)

text \<open>
  C6, amended. An enabled rule of kind \<open>FORBIDDEN_CATEGORY\<close> that is active and
  applies to the type of the document is triggered exactly when the category label is
  not empty and, both in lower case, contains the token of the rule as a substring: at
  its place in the catalog it adds its id to the triggered list under that condition and
  nothing otherwise, and in a catalog with distinct ids its id is in the triggered list
  exactly under that condition.
\<close>

theorem C6_forbidden_category_nonempty:
  assumes "rule_type r = FORBIDDEN_CATEGORY" and "enabled r"
    and "\<not> notActivated act r" and "\<not> notApplicable data r"
  shows "triggeredRules (evaluateRules h data (xs @ r # ys) act)
           = triggeredRules (evaluateRules h data xs act)
             @ (if category data \<noteq> []
                   \<and> sublist (toLowerCase h (String h (rule_value r)))
                        (toLowerCase h (category data))
                then [rule_id r] else [])
             @ triggeredRules (evaluateRules h data ys act)
       \<and> (distinct (map rule_id (xs @ r # ys)) \<longrightarrow>
            (rule_id r \<in> set (triggeredRules (evaluateRules h data (xs @ r # ys) act))
               \<longleftrightarrow> category data \<noteq> []
                    \<and> sublist (toLowerCase h (String h (rule_value r)))
                         (toLowerCase h (category data))))"
proof -
  have c: "counted h data act r \<longleftrightarrow> category data \<noteq> []
                    \<and> sublist (toLowerCase h (String h (rule_value r)))
                         (toLowerCase h (category data))"
    using assms by (simp add: counted_def violation_def includes_str_sublist)
  have "rule_id r \<in> set (triggeredRules (evaluateRules h data (xs @ r # ys) act))
          \<longleftrightarrow> category data \<noteq> []
                    \<and> sublist (toLowerCase h (String h (rule_value r)))
                         (toLowerCase h (category data))"
    if "distinct (map rule_id (xs @ r # ys))"
    using triggered_iff_counted [OF that, of r h data act] c by simp
  then show ?thesis
    using triggered_at_position [of h data xs r ys act] c
    by simp
qed

theorem C6_forbidden_category_nonempty_witness:
  "rule_type ruleForbidden = FORBIDDEN_CATEGORY \<and> enabled ruleForbidden
   \<and> \<not> notActivated None ruleForbidden \<and> \<not> notApplicable docDining ruleForbidden
   \<and> distinct (map rule_id ([ruleMax] @ ruleForbidden # [ruleOff]))
   \<and> rule_value ruleForbidden = VStr (str ''entertainment'')
   \<and> category docDining = str ''Entertainment & Dining''
   \<and> sublist (toLowerCase hostUTC (String hostUTC (rule_value ruleForbidden)))
        (toLowerCase hostUTC (category docDining))
   \<and> rule_id ruleForbidden \<in> set (triggeredRules
        (evaluateRules hostUTC docDining ([ruleMax] @ ruleForbidden # [ruleOff]) None))"
proof -
  have k: "rule_type ruleForbidden = FORBIDDEN_CATEGORY" and e: "enabled ruleForbidden"
    and a: "\<not> notActivated None ruleForbidden"
    and p: "\<not> notApplicable docDining ruleForbidden"
    and d: "distinct (map rule_id ([ruleMax] @ ruleForbidden # [ruleOff]))"
    and v: "rule_value ruleForbidden = VStr (str ''entertainment'')"
    and c: "category docDining = str ''Entertainment & Dining''"
    by (simp_all add: ruleMax_def ruleForbidden_def ruleOff_def docDining_def
        mkRule_def mkDoc_def notActivated_def notApplicable_def str_def)
  have s: "sublist (toLowerCase hostUTC (String hostUTC (rule_value ruleForbidden)))
        (toLowerCase hostUTC (category docDining))"
    by (simp add: ruleForbidden_def docDining_def mkRule_def mkDoc_def String_def
        toLowerCase_def asciiLower_def str_def includes_str_sublist [symmetric])
  have n: "category docDining \<noteq> []"
    by (simp add: docDining_def mkDoc_def str_def)
  from C6_forbidden_category_nonempty [OF k e a p, of hostUTC "[ruleMax]" "[ruleOff]"]
  show ?thesis
    using k e a p d v c s n by blast
qed

text \<open>
  C7. An enabled rule of kind \<open>MAX_AMOUNT\<close> that is active and applies to the type
  of the document is triggered exactly when the total amount is strictly greater than
  its threshold; an amount equal to the threshold is compliant. For a finite amount
  \<open>a\<close> and a threshold \<open>t\<close>, given as a number or as a string that the host reads
  as \<open>t\<close>, the rule adds its id at its place in the triggered list when \<open>t < a\<close> and
  nothing otherwise, and in a catalog with distinct ids its id is in the list exactly
  when \<open>t < a\<close>. With the threshold 0 this is \<open>0 < a\<close>: any positive amount and
  not the amount zero. In general the condition is the comparison \<open>>\<close> of the
  runtime on the amount and \<open>Number(rule.value)\<close>.
\<close>

theorem C7_max_amount_strict:
  assumes "rule_type r = MAX_AMOUNT" and "enabled r"
    and "\<not> notActivated act r" and "\<not> notApplicable data r"
  shows "(\<forall>t a. totalAmount data = Fin a
              \<and> (rule_value r = VNum (Fin t)
                  \<or> (\<exists>s. rule_value r = VStr s \<and> stringToNumber h s = Fin t)) \<longrightarrow>
            triggeredRules (evaluateRules h data (xs @ r # ys) act)
              = triggeredRules (evaluateRules h data xs act)
                @ (if t < a then [rule_id r] else [])
                @ triggeredRules (evaluateRules h data ys act)
            \<and> (distinct (map rule_id (xs @ r # ys)) \<longrightarrow>
                 (rule_id r \<in> set (triggeredRules (evaluateRules h data (xs @ r # ys) act))
                    \<longleftrightarrow> t < a)))
       \<and> (\<forall>a. totalAmount data = Fin a \<and> rule_value r = VNum (Fin 0) \<longrightarrow>
            triggeredRules (evaluateRules h data (xs @ r # ys) act)
              = triggeredRules (evaluateRules h data xs act)
                @ (if 0 < a then [rule_id r] else [])
                @ triggeredRules (evaluateRules h data ys act))
       \<and> triggeredRules (evaluateRules h data (xs @ r # ys) act)
           = triggeredRules (evaluateRules h data xs act)
             @ (if num_gt (totalAmount data) (Number h (rule_value r)) then [rule_id r] else [])
             @ triggeredRules (evaluateRules h data ys act)
       \<and> (distinct (map rule_id (xs @ r # ys)) \<longrightarrow>
            (rule_id r \<in> set (triggeredRules (evaluateRules h data (xs @ r # ys) act))
               \<longleftrightarrow> num_gt (totalAmount data) (Number h (rule_value r))))"
proof -
  note c = counted_max_amount [OF assms, of h]
  have pos: "triggeredRules (evaluateRules h data (xs @ r # ys) act)
           = triggeredRules (evaluateRules h data xs act)
             @ (if num_gt (totalAmount data) (Number h (rule_value r)) then [rule_id r] else [])
             @ triggeredRules (evaluateRules h data ys act)"
    using triggered_at_position [of h data xs r ys act] c by simp
  have mem: "rule_id r \<in> set (triggeredRules (evaluateRules h data (xs @ r # ys) act))
          \<longleftrightarrow> num_gt (totalAmount data) (Number h (rule_value r))"
    if "distinct (map rule_id (xs @ r # ys))"
    using triggered_iff_counted [OF that, of r h data act] c by simp
  have fin: "num_gt (totalAmount data) (Number h (rule_value r)) \<longleftrightarrow> t < a"
    if "totalAmount data = Fin a"
      and "rule_value r = VNum (Fin t) \<or> (\<exists>s. rule_value r = VStr s \<and> stringToNumber h s = Fin t)"
    for t a
    using that by (auto simp: Number_def)
  have zero: "num_gt (totalAmount data) (Number h (rule_value r)) \<longleftrightarrow> 0 < a"
    if "totalAmount data = Fin a" and "rule_value r = VNum (Fin 0)" for a
    using that by (simp add: Number_def)
  show ?thesis
    using pos mem fin zero by (intro conjI allI impI) (simp_all, blast+)
qed

theorem C7_max_amount_strict_witness:
  "rule_type ruleMax = MAX_AMOUNT \<and> enabled ruleMax
   \<and> \<not> notActivated (Some [str ''r1'']) ruleMax
   \<and> \<not> notApplicable docDining ruleMax \<and> \<not> notApplicable docAtLimit ruleMax
   \<and> rule_type ruleZero = MAX_AMOUNT \<and> enabled ruleZero \<and> \<not> notActivated None ruleZero
   \<and> \<not> notApplicable docSaturday ruleZero \<and> \<not> notApplicable docZero ruleZero
   \<and> rule_type ruleTextLimit = MAX_AMOUNT \<and> enabled ruleTextLimit
   \<and> \<not> notActivated None ruleTextLimit
   \<and> \<not> notApplicable docDining ruleTextLimit \<and> \<not> notApplicable docAtLimit ruleTextLimit
   \<and> distinct (map rule_id ([ruleForbidden] @ ruleMax # [ruleOff]))
   \<and> rule_value ruleMax = VNum (Fin 2000) \<and> rule_value ruleZero = VNum (Fin 0)
   \<and> rule_value ruleTextLimit = VStr (str ''2000'')
   \<and> stringToNumber hostDecimal (str ''2000'') = Fin 2000
   \<and> totalAmount docDining = Fin 2500 \<and> totalAmount docAtLimit = Fin 2000
   \<and> totalAmount docSaturday = Fin 10 \<and> totalAmount docZero = Fin 0
   \<and> rule_id ruleMax \<in> set (triggeredRules
         (evaluateRules hostUTC docDining ([ruleForbidden] @ ruleMax # [ruleOff]) (Some [str ''r1''])))
   \<and> rule_id ruleMax \<notin> set (triggeredRules
         (evaluateRules hostUTC docAtLimit ([ruleForbidden] @ ruleMax # [ruleOff]) (Some [str ''r1''])))
   \<and> triggeredRules (evaluateRules hostUTC docSaturday ([] @ ruleZero # []) None) = [rule_id ruleZero]
   \<and> triggeredRules (evaluateRules hostUTC docZero ([] @ ruleZero # []) None) = []
   \<and> triggeredRules (evaluateRules hostDecimal docDining ([] @ ruleTextLimit # []) None)
        = [rule_id ruleTextLimit]
   \<and> triggeredRules (evaluateRules hostDecimal docAtLimit ([] @ ruleTextLimit # []) None) = []"
proof -
  have m: "rule_type ruleMax = MAX_AMOUNT" "enabled ruleMax"
      "\<not> notActivated (Some [str ''r1'']) ruleMax"
    and m1: "\<not> notApplicable docDining ruleMax" and m2: "\<not> notApplicable docAtLimit ruleMax"
    and z: "rule_type ruleZero = MAX_AMOUNT" "enabled ruleZero" "\<not> notActivated None ruleZero"
    and z1: "\<not> notApplicable docSaturday ruleZero" and z2: "\<not> notApplicable docZero ruleZero"
    and s: "rule_type ruleTextLimit = MAX_AMOUNT" "enabled ruleTextLimit"
      "\<not> notActivated None ruleTextLimit"
    and s1: "\<not> notApplicable docDining ruleTextLimit"
    and s2: "\<not> notApplicable docAtLimit ruleTextLimit"
    by (simp_all add: ruleMax_def ruleZero_def ruleTextLimit_def docDining_def docAtLimit_def
        docSaturday_def docZero_def mkRule_def mkDoc_def notActivated_def notApplicable_def str_def)
  have d: "distinct (map rule_id ([ruleForbidden] @ ruleMax # [ruleOff]))"
    by (simp add: ruleForbidden_def ruleMax_def ruleOff_def mkRule_def str_def)
  have v: "rule_value ruleMax = VNum (Fin 2000)" "rule_value ruleZero = VNum (Fin 0)"
      "rule_value ruleTextLimit = VStr (str ''2000'')"
    by (simp_all add: ruleMax_def ruleZero_def ruleTextLimit_def mkRule_def)
  have n: "stringToNumber hostDecimal (str ''2000'') = Fin 2000"
    by (simp add: hostDecimal_def hostUTC_def isDigit_def digitsVal_def str_def)
  have a: "totalAmount docDining = Fin 2500" "totalAmount docAtLimit = Fin 2000"
      "totalAmount docSaturday = Fin 10" "totalAmount docZero = Fin 0"
    by (simp_all add: docDining_def docAtLimit_def docSaturday_def docZero_def mkDoc_def)
  have e: "triggeredRules (evaluateRules h data [] act) = []" for h data act
    by (simp add: triggeredRules_eq)
  note M1 = C7_max_amount_strict [OF m m1, of hostUTC "[ruleForbidden]" "[ruleOff]",
      THEN conjunct1, rule_format, of 2500 2000]
  note M2 = C7_max_amount_strict [OF m m2, of hostUTC "[ruleForbidden]" "[ruleOff]",
      THEN conjunct1, rule_format, of 2000 2000]
  note Z1 = C7_max_amount_strict [OF z z1, of hostUTC "[]" "[]",
      THEN conjunct2, THEN conjunct1, rule_format, of 10]
  note Z2 = C7_max_amount_strict [OF z z2, of hostUTC "[]" "[]",
      THEN conjunct2, THEN conjunct1, rule_format, of 0]
  note S1 = C7_max_amount_strict [OF s s1, of hostDecimal "[]" "[]",
      THEN conjunct1, rule_format, of 2500 2000]
  note S2 = C7_max_amount_strict [OF s s2, of hostDecimal "[]" "[]",
      THEN conjunct1, rule_format, of 2000 2000]
  have r1: "rule_id ruleMax \<in> set (triggeredRules
         (evaluateRules hostUTC docDining ([ruleForbidden] @ ruleMax # [ruleOff]) (Some [str ''r1''])))"
  proof -
    have "rule_id ruleMax \<in> set (triggeredRules
         (evaluateRules hostUTC docDining ([ruleForbidden] @ ruleMax # [ruleOff]) (Some [str ''r1''])))
          \<longleftrightarrow> (2000::real) < 2500"
      using M1 a v d by blast
    then show ?thesis by simp
  qed
  have r2: "rule_id ruleMax \<notin> set (triggeredRules
         (evaluateRules hostUTC docAtLimit ([ruleForbidden] @ ruleMax # [ruleOff]) (Some [str ''r1''])))"
  proof -
    have "rule_id ruleMax \<in> set (triggeredRules
         (evaluateRules hostUTC docAtLimit ([ruleForbidden] @ ruleMax # [ruleOff]) (Some [str ''r1''])))
          \<longleftrightarrow> (2000::real) < 2000"
      using M2 a v d by blast
    then show ?thesis by simp
  qed
  have r3: "triggeredRules (evaluateRules hostUTC docSaturday ([] @ ruleZero # []) None) = [rule_id ruleZero]"
    using Z1 a v by (simp add: e)
  have r4: "triggeredRules (evaluateRules hostUTC docZero ([] @ ruleZero # []) None) = []"
    using Z2 a v by (simp add: e)
  have r5: "triggeredRules (evaluateRules hostDecimal docDining ([] @ ruleTextLimit # []) None)
        = [rule_id ruleTextLimit]"
    using S1 a v n by (simp add: e)
  have r6: "triggeredRules (evaluateRules hostDecimal docAtLimit ([] @ ruleTextLimit # []) None) = []"
    using S2 a v n by (simp add: e)
  show ?thesis
    using m m1 m2 z z1 z2 s s1 s2 d v n a r1 r2 r3 r4 r5 r6 by (intro conjI)
qed

text \<open>
  C8. The evaluator never raises: run with the exceptions of the runtime, on any catalog,
  any list of active ids and any document, also one whose fields are missing, it returns
  a result, and on a document of the declared type this is the result of
  \<open>evaluateRules\<close>. A rule of an unknown kind, or a required-field rule whose token
  is not \<open>Merchant\<close>, is inert: the result is the one of the catalog without it, and
  in a catalog with distinct ids its id is not in the triggered list.
\<close>

theorem C8_total_and_inert:
  assumes "rule_type r = UNKNOWN_KIND
           \<or> (rule_type r = REQUIRED_FIELD \<and> rule_value r \<noteq> VStr (str ''Merchant''))"
  shows "(\<exists>res. evaluateRules_exn h raw rules act = Inr res)
       \<and> evaluateRules_exn h (toRaw data) rules act = Inr (evaluateRules h data rules act)
       \<and> evaluateRules_exn h raw (xs @ r # ys) act = evaluateRules_exn h raw (xs @ ys) act
       \<and> evaluateRules h data (xs @ r # ys) act = evaluateRules h data (xs @ ys) act
       \<and> (distinct (map rule_id (xs @ r # ys)) \<longrightarrow>
            rule_id r \<notin> set (triggeredRules (evaluateRules h data (xs @ r # ys) act)))"
proof -
  have nc: "\<not> counted h data act r"
    using inert_no_violation(2) [OF assms] by (simp add: counted_def)
  then have eq: "evaluateRules h data (xs @ r # ys) act = evaluateRules h data (xs @ ys) act"
    by (simp add: evaluateRules_counted)
  have notin: "rule_id r \<notin> set (triggeredRules (evaluateRules h data (xs @ r # ys) act))"
    if "distinct (map rule_id (xs @ r # ys))"
    using triggered_iff_counted [OF that, of r h data act] nc by simp
  show ?thesis
    using evaluateRules_exn_total [of h raw rules act] evaluateRules_exn_toRaw [of h data rules act]
      evaluateRules_exn_skip [OF inert_no_violation(1) [OF assms, of h raw], where xs = xs and ys = ys
        and act = act] eq notin
    by blast
qed

theorem C8_total_and_inert_witness:
  "rule_type ruleUnknown = UNKNOWN_KIND
   \<and> rule_type ruleOtherField = REQUIRED_FIELD \<and> rule_value ruleOtherField \<noteq> VStr (str ''Merchant'')
   \<and> distinct (map rule_id ([ruleMax] @ ruleUnknown # [ruleForbidden]))
   \<and> evaluateRules_exn hostUTC (toRaw docDining) ([ruleMax] @ ruleUnknown # [ruleForbidden]) None
       = Inr \<lparr> passed = False, triggeredRules = [str ''r1'', str ''r2''], score = 100 \<rparr>
   \<and> evaluateRules hostUTC docDining ([ruleMax] @ ruleUnknown # [ruleForbidden]) None
       = \<lparr> passed = False, triggeredRules = [str ''r1'', str ''r2''], score = 100 \<rparr>
   \<and> evaluateRules hostUTC docDining ([ruleMax] @ ruleOtherField # [ruleForbidden]) None
       = \<lparr> passed = False, triggeredRules = [str ''r1'', str ''r2''], score = 100 \<rparr>
   \<and> rule_id ruleUnknown \<notin> set (triggeredRules
         (evaluateRules hostUTC docDining ([ruleMax] @ ruleUnknown # [ruleForbidden]) None))
   \<and> evaluateRules_exn hostUTC rawEmpty
         ([ruleMax, ruleForbidden, ruleWeekend, ruleTaxi] @ ruleUnknown # [ruleMerchant])
         (Some [str ''r1'', str ''r2'', str ''r3'', str ''r6'', str ''r9'', str ''r10''])
       = Inr \<lparr> passed = False, triggeredRules = [str ''r9''], score = 20 \<rparr>"
proof -
  have u: "rule_type ruleUnknown = UNKNOWN_KIND
           \<or> (rule_type ruleUnknown = REQUIRED_FIELD \<and> rule_value ruleUnknown \<noteq> VStr (str ''Merchant''))"
    and f: "rule_type ruleOtherField = UNKNOWN_KIND
           \<or> (rule_type ruleOtherField = REQUIRED_FIELD \<and> rule_value ruleOtherField \<noteq> VStr (str ''Merchant''))"
    and d: "distinct (map rule_id ([ruleMax] @ ruleUnknown # [ruleForbidden]))"
    by (simp_all add: ruleUnknown_def ruleOtherField_def ruleMax_def ruleForbidden_def
        mkRule_def str_def)
  have k: "rule_type ruleUnknown = UNKNOWN_KIND
     \<and> rule_type ruleOtherField = REQUIRED_FIELD \<and> rule_value ruleOtherField \<noteq> VStr (str ''Merchant'')"
    by (simp add: ruleUnknown_def ruleOtherField_def mkRule_def str_def)
  note U = C8_total_and_inert [OF u, of hostUTC rawEmpty
      "[ruleMax, ruleForbidden, ruleWeekend, ruleTaxi] @ ruleUnknown # [ruleMerchant]"
      "Some [str ''r1'', str ''r2'', str ''r3'', str ''r6'', str ''r9'', str ''r10'']"
      docDining "[ruleMax]" "[ruleForbidden]"]
  note V = C8_total_and_inert [OF u, of hostUTC "toRaw docDining"
      "[ruleMax] @ ruleUnknown # [ruleForbidden]" None docDining "[ruleMax]" "[ruleForbidden]"]
  note F = C8_total_and_inert [OF f, of hostUTC rawEmpty "[]" None
      docDining "[ruleMax]" "[ruleForbidden]"]
  have p: "evaluateRules hostUTC docDining ([ruleMax] @ ruleUnknown # [ruleForbidden]) None
       = \<lparr> passed = False, triggeredRules = [str ''r1'', str ''r2''], score = 100 \<rparr>"
    using V two_rules_clamped [of hostUTC] by simp
  have q: "evaluateRules hostUTC docDining ([ruleMax] @ ruleOtherField # [ruleForbidden]) None
       = \<lparr> passed = False, triggeredRules = [str ''r1'', str ''r2''], score = 100 \<rparr>"
    using F two_rules_clamped [of hostUTC] by simp
  have x: "evaluateRules_exn hostUTC (toRaw docDining) ([ruleMax] @ ruleUnknown # [ruleForbidden]) None
       = Inr \<lparr> passed = False, triggeredRules = [str ''r1'', str ''r2''], score = 100 \<rparr>"
    using V p by simp
  have n: "rule_id ruleUnknown \<notin> set (triggeredRules
         (evaluateRules hostUTC docDining ([ruleMax] @ ruleUnknown # [ruleForbidden]) None))"
    using V d by blast
  have e: "evaluateRules_exn hostUTC rawEmpty
         ([ruleMax, ruleForbidden, ruleWeekend, ruleTaxi] @ ruleUnknown # [ruleMerchant])
         (Some [str ''r1'', str ''r2'', str ''r3'', str ''r6'', str ''r9'', str ''r10''])
       = Inr \<lparr> passed = False, triggeredRules = [str ''r9''], score = 20 \<rparr>"
    by (simp add: evaluateRules_exn_def notActivated_exn_def notApplicable_exn_def
        violation_exn_def invoke_def truthy_def new_Date_def rawEmpty_def ruleMax_def
        ruleForbidden_def ruleWeekend_def ruleTaxi_def ruleUnknown_def ruleMerchant_def
        mkRule_def Number_def weight_def str_def)
  show ?thesis
    using k d x p q n e by (intro conjI) simp_all
qed




text \<open>
  C10, as stated, fails for a request type without \<open>linkedRuleIds\<close>: deleting a rule
  gives it the empty list, which is a change other than the removal of the id.
\<close>

theorem C10_delete_rule_counterexample:
  "map linkedRuleIds (st_requestTypes stLinked) = [Some [str ''r1'', str ''r2''], None]
   \<and> map linkedRuleIds (st_requestTypes (handleDeleteRule False True (str ''r1'') stLinked))
        = [Some [str ''r2''], Some []]"
  by (simp add: stLinked_def rtTravel_def rtLegacy_def handleDeleteRule_def pruneLinks_def
      str_def)

text \<open>
  C10, amended. A confirmed deletion outside the read-only mode keeps the rows of the
  request types, their order, ids and names; a request type with a list keeps its ids
  other than the deleted one, in their order, and a request type without a list gets the
  empty list. The rules with the deleted id leave the catalog. In read-only mode, or
  when the dialog is declined, nothing changes.
\<close>

theorem C10_delete_rule_prunes_links:
  "map rt_id (st_requestTypes (handleDeleteRule False True ident st)) = map rt_id (st_requestTypes st)
   \<and> map rt_name (st_requestTypes (handleDeleteRule False True ident st))
       = map rt_name (st_requestTypes st)
   \<and> map linkedRuleIds (st_requestTypes (handleDeleteRule False True ident st))
       = map (\<lambda>rt. case linkedRuleIds rt of
                      None \<Rightarrow> Some []
                    | Some ids \<Rightarrow> Some (filter (\<lambda>rid. rid \<noteq> ident) ids))
           (st_requestTypes st)
   \<and> st_rules (handleDeleteRule False True ident st)
       = filter (\<lambda>r. rule_id r \<noteq> ident) (st_rules st)
   \<and> handleDeleteRule True confirmed ident st = st
   \<and> handleDeleteRule readOnly False ident st = st"
  by (auto simp: handleDeleteRule_def pruneLinks_def comp_def split: option.splits)

end
